theory Spec2Isabelle
  imports Complex_Main "HOL-Library.Word"
begin

section \<open>JavaScript values read by the provider\<close>

text \<open>
  The provider (\<^verbatim>\<open>src/provider.ts\<close>) reads JSON documents through optional chaining,
  tests them for truthiness and converts them with \<^verbatim>\<open>String(...)\<close>. A JavaScript string
  is a \<open>string\<close> here, one \<open>char\<close> per code unit, so \<open>length\<close> is \<^verbatim>\<open>.length\<close>; code
  units above 255 have no \<open>char\<close> and stay outside the model. The numbers of a
  document stay abstract (type \<open>'n\<close>): what the host does with them is part of the
  \<open>platform\<close> below. An object is the list of its own properties, each key once.
\<close>

datatype 'n json =
    JNull
  | JBool bool
  | JNum 'n
  | JStr string
  | JArr "'n json list"
  | JObj "(string \<times> 'n json) list"

text \<open>
  A value that may be \<^verbatim>\<open>undefined\<close> is an option, \<open>None\<close> being \<^verbatim>\<open>undefined\<close>.
  \<open>get_member v k\<close> is \<^verbatim>\<open>v.k\<close> for a name \<open>k\<close> that no prototype defines (the source
  reads \<^verbatim>\<open>choices\<close>, \<^verbatim>\<open>delta\<close>, \<^verbatim>\<open>content\<close>, \<^verbatim>\<open>message\<close>, \<^verbatim>\<open>assistant\<close> and
  \<^verbatim>\<open>response\<close>): only an object can have it. \<open>get_index0 v\<close> is \<^verbatim>\<open>v[0]\<close>: the first
  element of an array, the first code unit of a string, the property \<^verbatim>\<open>"0"\<close> of an
  object.
\<close>

fun get_member :: "'n json \<Rightarrow> string \<Rightarrow> 'n json option" where
  "get_member (JObj kvs) k = map_of kvs k"
| "get_member _ k = None"

fun get_index0 :: "'n json \<Rightarrow> 'n json option" where
  "get_index0 (JArr []) = None"
| "get_index0 (JArr (x # xs)) = Some x"
| "get_index0 (JStr []) = None"
| "get_index0 (JStr (c # cs)) = Some (JStr [c])"
| "get_index0 (JObj kvs) = map_of kvs ''0''"
| "get_index0 _ = None"

text \<open>Optional chaining \<^verbatim>\<open>v?.k\<close> and \<^verbatim>\<open>v?.[0]\<close>: \<^verbatim>\<open>undefined\<close> when \<open>v\<close> is nullish.\<close>

fun opt_member :: "'n json option \<Rightarrow> string \<Rightarrow> 'n json option" where
  "opt_member None k = None"
| "opt_member (Some JNull) k = None"
| "opt_member (Some v) k = get_member v k"

fun opt_index0 :: "'n json option \<Rightarrow> 'n json option" where
  "opt_index0 None = None"
| "opt_index0 (Some JNull) = None"
| "opt_index0 (Some v) = get_index0 v"

text \<open>Nullish coalescing \<^verbatim>\<open>a ?? b\<close>: \<open>b\<close> when \<open>a\<close> is \<^verbatim>\<open>undefined\<close> or \<^verbatim>\<open>null\<close>.\<close>

fun nullish :: "'n json option \<Rightarrow> bool" where
  "nullish None = True"
| "nullish (Some JNull) = True"
| "nullish (Some v) = False"

definition coalesce :: "'n json option \<Rightarrow> 'n json option \<Rightarrow> 'n json option" where
  "coalesce a b = (if nullish a then b else a)"

text \<open>
  What the host supplies: \<^verbatim>\<open>JSON.parse\<close> (\<open>None\<close> when it throws),
  \<^verbatim>\<open>JSON.stringify(v, null, 2)\<close>, the truthiness and the decimal form of a number, and
  the \<^verbatim>\<open>TextDecoder\<close>. Every call of the decoder passes \<^verbatim>\<open>{stream: true}\<close>, so it
  is a transducer that consumes one byte at a time and keeps its state between calls.
\<close>

type_synonym byte = "8 word"

record ('n, 'd) platform =
  JSON_parse :: "string \<Rightarrow> 'n json option"
  JSON_stringify :: "'n json \<Rightarrow> string"
  Number_truthy :: "'n \<Rightarrow> bool"
  Number_toString :: "'n \<Rightarrow> string"
  decoder_new :: "'d"
  decoder_byte :: "'d \<Rightarrow> byte \<Rightarrow> string \<times> 'd"

text \<open>The condition of \<^verbatim>\<open>if (v)\<close>.\<close>

fun truthy :: "('n, 'd) platform \<Rightarrow> 'n json option \<Rightarrow> bool" where
  "truthy P None = False"
| "truthy P (Some JNull) = False"
| "truthy P (Some (JBool b)) = b"
| "truthy P (Some (JNum n)) = Number_truthy P n"
| "truthy P (Some (JStr s)) = (s \<noteq> [])"
| "truthy P (Some (JArr xs)) = True"
| "truthy P (Some (JObj kvs)) = True"

text \<open>
  \<^verbatim>\<open>String(v)\<close>, \<open>None\<close> when it throws a TypeError. An array is joined with commas, a
  \<^verbatim>\<open>null\<close> element giving the empty string. An object answers \<^verbatim>\<open>[object Object]\<close>
  through \<^verbatim>\<open>Object.prototype.toString\<close>, unless an own property \<^verbatim>\<open>toString\<close> hides that
  method: a JSON value is never callable, and the conversion throws.
\<close>

fun String_js :: "('n, 'd) platform \<Rightarrow> 'n json \<Rightarrow> string option"
  and join_js :: "('n, 'd) platform \<Rightarrow> 'n json list \<Rightarrow> string option"
where
  "String_js P JNull = Some ''null''"
| "String_js P (JBool b) = Some (if b then ''true'' else ''false'')"
| "String_js P (JNum n) = Some (Number_toString P n)"
| "String_js P (JStr s) = Some s"
| "String_js P (JArr xs) = join_js P xs"
| "String_js P (JObj kvs) =
     (if map_of kvs ''toString'' \<noteq> None then None else Some ''[object Object]'')"
| "join_js P [] = Some []"
| "join_js P (x # xs) =
     (case (if x = JNull then Some [] else String_js P x) of
        None \<Rightarrow> None
      | Some s \<Rightarrow>
          (if xs = [] then Some s
           else (case join_js P xs of None \<Rightarrow> None | Some t \<Rightarrow> Some (s @ '','' @ t))))"

section \<open>The streaming decoder\<close>

text \<open>\<^verbatim>\<open>decoder.decode(value, {stream: true})\<close>: the text of a chunk and the new state.\<close>

fun decode :: "('n, 'd) platform \<Rightarrow> 'd \<Rightarrow> byte list \<Rightarrow> string \<times> 'd" where
  "decode P d [] = ([], d)"
| "decode P d (b # bs) =
     (case decoder_byte P d b of
        (s, d') \<Rightarrow> (case decode P d' bs of (t, d'') \<Rightarrow> (s @ t, d'')))"

text \<open>\<^verbatim>\<open>buffer.split("\n")\<close>: never empty, the last element is the text after the last newline.\<close>

fun split_nl :: "string \<Rightarrow> string list" where
  "split_nl [] = [[]]"
| "split_nl (c # cs) =
     (if c = CHR 0x0A then [] # split_nl cs
      else (case split_nl cs of [] \<Rightarrow> [[c]] | l # ls \<Rightarrow> (c # l) # ls))"

text \<open>\<^verbatim>\<open>lines.pop()\<close>: the removed last element (\<^verbatim>\<open>undefined\<close> on an empty array) and what stays.\<close>

definition pop :: "'a list \<Rightarrow> 'a option \<times> 'a list" where
  "pop xs = (if xs = [] then (None, []) else (Some (last xs), butlast xs))"

text \<open>\<^verbatim>\<open>s || ""\<close> for a string or \<^verbatim>\<open>undefined\<close>.\<close>

fun or_empty :: "string option \<Rightarrow> string" where
  "or_empty None = []"
| "or_empty (Some s) = (if s = [] then [] else s)"

text \<open>
  The parts of the host: what a request message contains and what the progress sink
  receives. A tool call carries its call id, its name and its input object.
\<close>

datatype 'n part =
    LanguageModelTextPart string
  | LanguageModelToolCallPart string string "'n json"
  | LanguageModelToolResultPart string "'n json list"

text \<open>
  The body of the \<^verbatim>\<open>try\<close> block: the parts reported for one payload. A payload that does
  not parse, and a conversion that throws, are caught and report nothing.
\<close>

definition delta_content :: "'n json \<Rightarrow> 'n json option" where
  "delta_content parsed =
     opt_member (opt_member (opt_index0 (opt_member (Some parsed) ''choices'')) ''delta'') ''content''"

definition handle_event :: "('n, 'd) platform \<Rightarrow> string \<Rightarrow> 'n part list" where
  "handle_event P data =
     (case JSON_parse P data of
        None \<Rightarrow> []
      | Some parsed \<Rightarrow>
          (let content = delta_content parsed in
           if truthy P content then
             (case String_js P (the content) of
                None \<Rightarrow> []
              | Some s \<Rightarrow> [LanguageModelTextPart s])
           else []))"

text \<open>
  The \<^verbatim>\<open>for\<close> loop over the complete lines: the parts reported, and whether the loop
  left the function at the end sentinel.
\<close>

fun for_lines :: "('n, 'd) platform \<Rightarrow> string list \<Rightarrow> 'n part list \<times> bool" where
  "for_lines P [] = ([], False)"
| "for_lines P (line # lines) =
     (if take 6 line \<noteq> ''data: '' then for_lines P lines
      else
        (let data = drop 6 line in
         if data = ''[DONE]'' then ([], True)
         else (case for_lines P lines of (ps, stop) \<Rightarrow> (handle_event P data @ ps, stop))))"

datatype error =
    NotConfigured
  | InvalidRequest
  | FetchFailed
  | RemoteError string
  | BodyNotJson
  | TypeError
  | NoResponseBody
  | ReadFailed

datatype outcome = Returned | Threw error

text \<open>
  The response body is the list of results that \<^verbatim>\<open>reader.read()\<close> gives before it
  reports \<^verbatim>\<open>done\<close>; a read may reject. The cancellation token is polled once per
  iteration: \<open>token k\<close> is the answer to poll number \<open>k\<close>.
\<close>

datatype read = Chunk "byte list" | ReadRejected

fun while_loop ::
  "('n, 'd) platform \<Rightarrow> (nat \<Rightarrow> bool) \<Rightarrow> 'd \<Rightarrow> string \<Rightarrow> read list \<Rightarrow> 'n part list \<times> outcome"
where
  "while_loop P token d buffer [] = (if token 0 then ([], Returned) else ([], Returned))"
| "while_loop P token d buffer (r # rs) =
     (if token 0 then ([], Returned)
      else
        (case r of
           ReadRejected \<Rightarrow> ([], Threw ReadFailed)
         | Chunk val \<Rightarrow>
             (case decode P d val of
                (text, d') \<Rightarrow>
                  (case pop (split_nl (buffer @ text)) of
                     (l, lines) \<Rightarrow>
                       (case for_lines P lines of
                          (ps, stop) \<Rightarrow>
                            if stop then (ps, Returned)
                            else
                              (case while_loop P (\<lambda>k. token (Suc k)) d' (or_empty l) rs of
                                 (ps', out) \<Rightarrow> (ps @ ps', out)))))))"

definition processStreamingResponse ::
  "('n, 'd) platform \<Rightarrow> read list \<Rightarrow> (nat \<Rightarrow> bool) \<Rightarrow> 'n part list \<times> outcome"
where
  "processStreamingResponse P responseBody token =
     while_loop P token (decoder_new P) [] responseBody"

section \<open>Token estimates\<close>

text \<open>\<^verbatim>\<open>Math.ceil(n / 4)\<close> for a length \<open>n\<close>; dividing a length by four is exact in a double.\<close>

definition ceil4 :: "nat \<Rightarrow> nat" where
  "ceil4 n = nat \<lceil>real n / 4\<rceil>"

datatype role = User | Assistant

record 'n LanguageModelChatRequestMessage =
  role :: role
  content :: "'n part list"

text \<open>
  The two nested \<^verbatim>\<open>for\<close> loops; the second argument of \<open>add_part\<close> is the running
  \<^verbatim>\<open>total\<close>.
\<close>

fun add_part :: "'n part \<Rightarrow> nat \<Rightarrow> nat" where
  "add_part (LanguageModelTextPart v) n = n + ceil4 (length v)"
| "add_part _ n = n"

definition estimateMessagesTokens :: "'n LanguageModelChatRequestMessage list \<Rightarrow> nat" where
  "estimateMessagesTokens msgs = fold (\<lambda>m n. fold add_part (content m) n) msgs 0"

text \<open>
  \<open>tools\<close> is \<open>None\<close> when \<^verbatim>\<open>undefined\<close>; \<open>stringify\<close> is \<^verbatim>\<open>JSON.stringify\<close> on the
  tool array, \<open>None\<close> when it throws.
\<close>

definition estimateToolTokens :: "('t list \<Rightarrow> string option) \<Rightarrow> 't list option \<Rightarrow> nat" where
  "estimateToolTokens stringify tools =
     (case tools of
        None \<Rightarrow> 0
      | Some ts \<Rightarrow>
          (if length ts = 0 then 0
           else (case stringify ts of None \<Rightarrow> 0 | Some s \<Rightarrow> ceil4 (length s))))"

definition provideTokenCount :: "string + 'n LanguageModelChatRequestMessage \<Rightarrow> nat" where
  "provideTokenCount txt =
     (case txt of
        Inl s \<Rightarrow> ceil4 (length s)
      | Inr m \<Rightarrow> fold add_part (content m) 0)"

section \<open>The provider\<close>

text \<open>
  The fields of the provider instance. The secret storage is the host's; it is kept
  here as the map from keys to stored strings.
\<close>

record tool_call_buffer =
  tc_id :: "string option"
  tc_name :: "string option"
  tc_args :: string

record text_tool =
  tt_name :: "string option"
  tt_index :: "int option"
  tt_argBuffer :: string
  tt_emitted :: "bool option"

record provider =
  secrets :: "string \<rightharpoonup> string"
  userAgent :: string
  chatEndpoints :: "(string \<times> int) list"
  toolCallBuffers :: "int \<rightharpoonup> tool_call_buffer"
  completedToolCallIndices :: "int set"
  hasEmittedAssistantText :: bool
  emittedBeginToolCallsHint :: bool
  textToolParserBuffer :: string
  textToolActive :: "text_tool option"
  emittedTextToolCallKeys :: "string set"
  emittedTextToolCallIds :: "string set"

record config =
  baseUrl :: string
  apiKey :: string

text \<open>\<^verbatim>\<open>!s\<close> for a string or \<^verbatim>\<open>undefined\<close>.\<close>

fun falsy :: "string option \<Rightarrow> bool" where
  "falsy None = True"
| "falsy (Some s) = (s = [])"

text \<open>
  \<open>showInputBox\<close> answers a prompt (\<open>None\<close> when dismissed). The result is the
  configuration, \<open>None\<close> when no base URL is known, and the secret storage after the
  answers were stored.
\<close>

definition ensureConfig ::
  "(string \<Rightarrow> string option) \<Rightarrow> (string \<rightharpoonup> string) \<Rightarrow> bool \<Rightarrow>
     config option \<times> (string \<rightharpoonup> string)"
where
  "ensureConfig showInputBox store silent =
     (let baseUrl0 = store ''litellm.baseUrl'';
          apiKey0 = store ''litellm.apiKey'';
          (baseUrl1, store1) =
            (if falsy baseUrl0 \<and> \<not> silent then
               (let b = showInputBox ''LiteLLM Base URL'' in
                (b, if \<not> falsy b then store(''litellm.baseUrl'' \<mapsto> the b) else store))
             else (baseUrl0, store));
          (apiKey1, store2) =
            (if falsy apiKey0 \<and> \<not> silent then
               (let a = showInputBox ''LiteLLM API Key (optional)'' in
                (a, if \<not> falsy a then store1(''litellm.apiKey'' \<mapsto> the a) else store1))
             else (apiKey0, store1))
      in if falsy baseUrl1 then (None, store2)
         else (Some \<lparr>baseUrl = the baseUrl1,
                     apiKey = (case apiKey1 of None \<Rightarrow> [] | Some k \<Rightarrow> k)\<rparr>, store2))"

record LanguageModelChatInformation =
  model_id :: string
  maxInputTokens :: int
  maxOutputTokens :: int

record modelOptions =
  max_tokens :: "int option"
  temperature :: "rat option"

record 'n ProvideLanguageModelChatResponseOptions =
  modelOptions :: "modelOptions option"
  tools :: "'n json option"

record 'n requestBody =
  body_model :: string
  body_messages :: "'n json"
  body_stream :: bool
  body_max_tokens :: int
  body_temperature :: rat
  body_tools :: "'n json option"
  body_tool_choice :: "'n json option"

record 'n request =
  url :: string
  http_method :: string
  headers :: "(string \<times> string) list"
  body :: "'n requestBody"

text \<open>
  A response as the provider observes it: \<^verbatim>\<open>ok\<close>, the result of \<^verbatim>\<open>text()\<close>, the
  \<^verbatim>\<open>content-type\<close> header (\<open>None\<close> when \<^verbatim>\<open>get\<close> answers \<^verbatim>\<open>null\<close>), the result of
  \<^verbatim>\<open>json()\<close> (\<open>None\<close> when it rejects) and the body stream (\<open>None\<close> when \<^verbatim>\<open>null\<close>).
\<close>

record 'n response =
  ok :: bool
  response_text :: string
  content_type :: "string option"
  response_json :: "'n json option"
  response_body :: "read list option"

record 'n toolConfig =
  tc_tools :: "'n json option"
  tc_tool_choice :: "'n json option"

text \<open>
  The collaborators that are not part of \<^verbatim>\<open>provider.ts\<close>: the three functions of
  \<^verbatim>\<open>./utils\<close> (\<open>validateRequest\<close> answers whether it returns rather than throws), the
  network (\<open>None\<close> when \<^verbatim>\<open>fetch\<close> rejects) and the input box of the host.
\<close>

record 'n collaborators =
  validateRequest :: "'n LanguageModelChatRequestMessage list \<Rightarrow> bool"
  convertMessages :: "'n LanguageModelChatRequestMessage list \<Rightarrow> 'n json"
  convertTools :: "'n ProvideLanguageModelChatResponseOptions \<Rightarrow> 'n toolConfig"
  fetch :: "'n request \<Rightarrow> 'n response option"
  showInputBox :: "string \<Rightarrow> string option"

text \<open>\<^verbatim>\<open>n || d\<close> for a number or \<^verbatim>\<open>undefined\<close>: zero is falsy.\<close>

fun or_default :: "int option \<Rightarrow> int \<Rightarrow> int" where
  "or_default None d = d"
| "or_default (Some n) d = (if n = 0 then d else n)"

text \<open>\<^verbatim>\<open>s.includes(t)\<close>.\<close>

fun str_includes :: "string \<Rightarrow> string \<Rightarrow> bool" where
  "str_includes [] t = (t = [])"
| "str_includes (c # cs) t = (take (length t) (c # cs) = t \<or> str_includes cs t)"

text \<open>\<^verbatim>\<open>options.modelOptions?.max_tokens\<close> and \<^verbatim>\<open>options.modelOptions?.temperature\<close>.\<close>

definition requested_max_tokens :: "'n ProvideLanguageModelChatResponseOptions \<Rightarrow> int option" where
  "requested_max_tokens options = (case modelOptions options of None \<Rightarrow> None | Some mo \<Rightarrow> max_tokens mo)"

definition requested_temperature :: "'n ProvideLanguageModelChatResponseOptions \<Rightarrow> rat option" where
  "requested_temperature options = (case modelOptions options of None \<Rightarrow> None | Some mo \<Rightarrow> temperature mo)"

definition make_requestBody ::
  "'n collaborators \<Rightarrow> LanguageModelChatInformation \<Rightarrow> 'n LanguageModelChatRequestMessage list \<Rightarrow>
     'n ProvideLanguageModelChatResponseOptions \<Rightarrow> ('n, 'd) platform \<Rightarrow> 'n requestBody"
where
  "make_requestBody C model messages options P =
     (let toolConfig = convertTools C options
      in \<lparr>body_model = model_id model,
          body_messages = convertMessages C messages,
          body_stream = True,
          body_max_tokens =
            min (or_default (requested_max_tokens options) 4096) (maxOutputTokens model),
          body_temperature =
            (case requested_temperature options of None \<Rightarrow> 7 / 10 | Some t \<Rightarrow> t),
          body_tools = (if truthy P (tc_tools toolConfig) then tc_tools toolConfig else None),
          body_tool_choice =
            (if truthy P (tc_tool_choice toolConfig) then tc_tool_choice toolConfig else None)\<rparr>)"

definition make_headers :: "string \<Rightarrow> config \<Rightarrow> (string \<times> string) list" where
  "make_headers ua cfg =
     [(''Content-Type'', ''application/json''), (''User-Agent'', ua)] @
     (if apiKey cfg \<noteq> [] then
        [(''Authorization'', ''Bearer '' @ apiKey cfg), (''X-API-Key'', apiKey cfg)]
      else [])"

text \<open>
  The text of a non-streaming document, before \<^verbatim>\<open>String(...)\<close>: the content of the first
  choice's message, else the content of the alternate shape, else the document printed
  with an indent of two.
\<close>

definition message_content :: "'n json \<Rightarrow> 'n json option" where
  "message_content j =
     opt_member (opt_member (opt_index0 (opt_member (Some j) ''choices'')) ''message'') ''content''"

definition assistant_content :: "'n json \<Rightarrow> 'n json option" where
  "assistant_content j =
     opt_member (opt_index0 (opt_member (opt_member (Some j) ''assistant'') ''response'')) ''content''"

definition response_text_value :: "('n, 'd) platform \<Rightarrow> 'n json \<Rightarrow> 'n json" where
  "response_text_value P j =
     the (coalesce (message_content j)
            (coalesce (assistant_content j) (Some (JStr (JSON_stringify P j)))))"

text \<open>
  What the entry point does with a successful response (from the \<^verbatim>\<open>content-type\<close>
  test to its end): the parts reported and the outcome.
\<close>

definition handle_response ::
  "('n, 'd) platform \<Rightarrow> 'n response \<Rightarrow> (nat \<Rightarrow> bool) \<Rightarrow> 'n part list \<times> outcome"
where
  "handle_response P resp token =
     (let contentType = (case content_type resp of None \<Rightarrow> [] | Some c \<Rightarrow> c)
      in if \<not> str_includes contentType ''text/event-stream'' then
           (case response_json resp of
              None \<Rightarrow> ([], Threw BodyNotJson)
            | Some j \<Rightarrow>
                (case String_js P (response_text_value P j) of
                   None \<Rightarrow> ([], Threw TypeError)
                 | Some s \<Rightarrow> ([LanguageModelTextPart s], Returned)))
         else
           (case response_body resp of
              None \<Rightarrow> ([], Threw NoResponseBody)
            | Some stream \<Rightarrow> processStreamingResponse P stream token))"

text \<open>
  One call of the entry point: the provider afterwards, the parts reported to
  \<open>progress\<close> in order, and whether the call returned or threw.
\<close>

definition reset_turn :: "provider \<Rightarrow> provider" where
  "reset_turn this =
     this\<lparr>toolCallBuffers := Map.empty,
          completedToolCallIndices := {},
          hasEmittedAssistantText := False,
          emittedBeginToolCallsHint := False,
          textToolParserBuffer := [],
          textToolActive := None,
          emittedTextToolCallKeys := {},
          emittedTextToolCallIds := {}\<rparr>"

definition provideLanguageModelChatResponse ::
  "('n, 'd) platform \<Rightarrow> 'n collaborators \<Rightarrow> provider \<Rightarrow> LanguageModelChatInformation \<Rightarrow>
     'n LanguageModelChatRequestMessage list \<Rightarrow> 'n ProvideLanguageModelChatResponseOptions \<Rightarrow>
     (nat \<Rightarrow> bool) \<Rightarrow> provider \<times> 'n part list \<times> outcome"
where
  "provideLanguageModelChatResponse P C this model messages options token =
     (let this1 = reset_turn this;
          (cfg, store) = ensureConfig (showInputBox C) (secrets this1) True;
          this2 = this1\<lparr>secrets := store\<rparr>
      in case cfg of
           None \<Rightarrow> (this2, [], Threw NotConfigured)
         | Some config \<Rightarrow>
             if \<not> validateRequest C messages then (this2, [], Threw InvalidRequest)
             else
               (case fetch C \<lparr>url = baseUrl config @ ''/v1/chat/completions'',
                               http_method = ''POST'',
                               headers = make_headers (userAgent this2) config,
                               body = make_requestBody C model messages options P\<rparr> of
                  None \<Rightarrow> (this2, [], Threw FetchFailed)
                | Some resp \<Rightarrow>
                    if \<not> ok resp then (this2, [], Threw (RemoteError (response_text resp)))
                    else
                      (case handle_response P resp token of (ps, out) \<Rightarrow> (this2, ps, out))))"

section \<open>What the specification speaks of\<close>

text \<open>
  The complete lines of the carry-over buffer followed by newly decoded text, and the
  partial line that stays buffered.
\<close>

definition complete_lines :: "string \<Rightarrow> string \<Rightarrow> string list" where
  "complete_lines buffer s = butlast (split_nl (buffer @ s))"

definition partial_line :: "string \<Rightarrow> string \<Rightarrow> string" where
  "partial_line buffer s = last (split_nl (buffer @ s))"

text \<open>The complete lines of a whole stream, decoded from the start.\<close>

definition stream_lines :: "('n, 'd) platform \<Rightarrow> byte list \<Rightarrow> string list" where
  "stream_lines P bs = complete_lines [] (fst (decode P (decoder_new P) bs))"

fun is_tool_call :: "'n part \<Rightarrow> bool" where
  "is_tool_call (LanguageModelToolCallPart c n i) = True"
| "is_tool_call _ = False"

text \<open>The values of the text parts of a message list, in order.\<close>

fun text_value :: "'n part \<Rightarrow> string list" where
  "text_value (LanguageModelTextPart v) = [v]"
| "text_value _ = []"

definition text_values :: "'n LanguageModelChatRequestMessage list \<Rightarrow> string list" where
  "text_values msgs = concat (map (\<lambda>m. concat (map text_value (content m))) msgs)"

text \<open>
  The estimate in the words of the specification: the total character length of all
  text content, divided by four and rounded up.
\<close>

definition spec_estimateMessages :: "'n LanguageModelChatRequestMessage list \<Rightarrow> nat" where
  "spec_estimateMessages msgs = ceil4 (sum_list (map length (text_values msgs)))"

text \<open>
  The clamp in the words of the specification,
  \<^verbatim>\<open>min(requested ?? 4096, model.maxOutputTokens)\<close>.
\<close>

definition spec_max_tokens :: "int option \<Rightarrow> int \<Rightarrow> int" where
  "spec_max_tokens requested maxOut = min (case requested of None \<Rightarrow> 4096 | Some r \<Rightarrow> r) maxOut"

section \<open>A platform for the examples\<close>

text \<open>
  The examples below run the provider on a concrete host. Its \<^verbatim>\<open>JSON.parse\<close> reads the
  fragment of JSON whose numbers are integer literals and whose strings use the
  two-character escapes only; outside the fragment it answers \<open>None\<close>, and the examples
  stay inside. The recursion carries a bound of twice the length of the text plus two.
  Its decoder reads an ASCII stream, one code unit per byte.
\<close>

definition is_ws :: "char \<Rightarrow> bool" where
  "is_ws c = (c = CHR '' '' \<or> c = CHR 0x09 \<or> c = CHR 0x0A \<or> c = CHR 0x0D)"

definition skip_ws :: "string \<Rightarrow> string" where
  "skip_ws s = dropWhile is_ws s"

definition is_digit :: "char \<Rightarrow> bool" where
  "is_digit c = (48 \<le> (of_char c :: nat) \<and> (of_char c :: nat) \<le> 57)"

definition digit_val :: "char \<Rightarrow> int" where
  "digit_val c = of_char c - 48"

fun unescape :: "char \<Rightarrow> char option" where
  "unescape c =
     (if c = CHR 0x22 then Some (CHR 0x22)
      else if c = CHR 0x5C then Some (CHR 0x5C)
      else if c = CHR ''/'' then Some (CHR ''/'')
      else if c = CHR ''b'' then Some (CHR 0x08)
      else if c = CHR ''f'' then Some (CHR 0x0C)
      else if c = CHR ''n'' then Some (CHR 0x0A)
      else if c = CHR ''r'' then Some (CHR 0x0D)
      else if c = CHR ''t'' then Some (CHR 0x09)
      else None)"

text \<open>The rest of a string literal after its opening quote: the string and what follows.\<close>

fun parse_string :: "string \<Rightarrow> (string \<times> string) option" where
  "parse_string [] = None"
| "parse_string [c] = (if c = CHR 0x22 then Some ([], []) else None)"
| "parse_string (c # e # cs) =
     (if c = CHR 0x22 then Some ([], e # cs)
      else if c = CHR 0x5C then
        (case unescape e of
           None \<Rightarrow> None
         | Some x \<Rightarrow> (case parse_string cs of None \<Rightarrow> None | Some (s, r) \<Rightarrow> Some (x # s, r)))
      else if (of_char c :: nat) < 32 then None
      else (case parse_string (e # cs) of None \<Rightarrow> None | Some (s, r) \<Rightarrow> Some (c # s, r)))"

text \<open>A repeated key keeps its first position and takes the last value.\<close>

fun set_property :: "string \<Rightarrow> 'v \<Rightarrow> (string \<times> 'v) list \<Rightarrow> (string \<times> 'v) list" where
  "set_property k v [] = [(k, v)]"
| "set_property k v (p # ps) = (if fst p = k then (k, v) # ps else p # set_property k v ps)"

definition parse_int :: "string \<Rightarrow> (int \<times> string) option" where
  "parse_int s =
     (let (neg, t) =
            (case s of [] \<Rightarrow> (False, s) | c # cs \<Rightarrow> if c = CHR ''-'' then (True, cs) else (False, s));
          ds = takeWhile is_digit t;
          r = dropWhile is_digit t
      in if ds = [] \<or> (length ds > 1 \<and> hd ds = CHR ''0'') then None
         else if r \<noteq> [] \<and> (hd r = CHR ''.'' \<or> hd r = CHR ''e'' \<or> hd r = CHR ''E'') then None
         else Some ((if neg then - 1 else 1) * foldl (\<lambda>a c. 10 * a + digit_val c) 0 ds, r))"

fun parse_value :: "nat \<Rightarrow> string \<Rightarrow> (int json \<times> string) option"
  and parse_elements :: "nat \<Rightarrow> string \<Rightarrow> (int json list \<times> string) option"
  and parse_members :: "nat \<Rightarrow> string \<Rightarrow> ((string \<times> int json) list \<times> string) option"
where
  "parse_value 0 s = None"
| "parse_value (Suc f) s =
     (case skip_ws s of
        [] \<Rightarrow> None
      | c # cs \<Rightarrow>
          if c = CHR 0x22 then
            (case parse_string cs of None \<Rightarrow> None | Some (t, r) \<Rightarrow> Some (JStr t, r))
          else if c = CHR ''['' then
            (case skip_ws cs of
               [] \<Rightarrow> None
             | c' # r \<Rightarrow>
                 if c' = CHR '']'' then Some (JArr [], r)
                 else (case parse_elements f cs of None \<Rightarrow> None | Some (vs, r') \<Rightarrow> Some (JArr vs, r')))
          else if c = CHR ''{'' then
            (case skip_ws cs of
               [] \<Rightarrow> None
             | c' # r \<Rightarrow>
                 if c' = CHR ''}'' then Some (JObj [], r)
                 else (case parse_members f cs of
                         None \<Rightarrow> None
                       | Some (kvs, r') \<Rightarrow> Some (JObj (fold (\<lambda>(k, v). set_property k v) kvs []), r')))
          else if take 4 (c # cs) = ''null'' then Some (JNull, drop 4 (c # cs))
          else if take 4 (c # cs) = ''true'' then Some (JBool True, drop 4 (c # cs))
          else if take 5 (c # cs) = ''false'' then Some (JBool False, drop 5 (c # cs))
          else (case parse_int (c # cs) of None \<Rightarrow> None | Some (n, r) \<Rightarrow> Some (JNum n, r)))"
| "parse_elements 0 s = None"
| "parse_elements (Suc f) s =
     (case parse_value f s of
        None \<Rightarrow> None
      | Some (v, r) \<Rightarrow>
          (case skip_ws r of
             [] \<Rightarrow> None
           | c # r' \<Rightarrow>
               if c = CHR '']'' then Some ([v], r')
               else if c = CHR '','' then
                 (case parse_elements f r' of None \<Rightarrow> None | Some (vs, r'') \<Rightarrow> Some (v # vs, r''))
               else None))"
| "parse_members 0 s = None"
| "parse_members (Suc f) s =
     (case skip_ws s of
        [] \<Rightarrow> None
      | q # cs \<Rightarrow>
          if q \<noteq> CHR 0x22 then None
          else
            (case parse_string cs of
               None \<Rightarrow> None
             | Some (k, r) \<Rightarrow>
                 (case skip_ws r of
                    [] \<Rightarrow> None
                  | c # r' \<Rightarrow>
                      if c \<noteq> CHR '':'' then None
                      else
                        (case parse_value f r' of
                           None \<Rightarrow> None
                         | Some (v, r'') \<Rightarrow>
                             (case skip_ws r'' of
                                [] \<Rightarrow> None
                              | c' # t \<Rightarrow>
                                  if c' = CHR ''}'' then Some ([(k, v)], t)
                                  else if c' = CHR '','' then
                                    (case parse_members f t of
                                       None \<Rightarrow> None
                                     | Some (kvs, t') \<Rightarrow> Some ((k, v) # kvs, t'))
                                  else None)))))"

definition json_parse :: "string \<Rightarrow> int json option" where
  "json_parse s =
     (case parse_value (2 * length s + 2) s of
        None \<Rightarrow> None
      | Some (v, r) \<Rightarrow> if skip_ws r = [] then Some v else None)"

text \<open>Decimal numerals.\<close>

function show_nat :: "nat \<Rightarrow> string" where
  "show_nat n = (if n < 10 then [char_of (48 + n)] else show_nat (n div 10) @ [char_of (48 + n mod 10)])"
  by pat_completeness auto
termination
  by (relation "measure id") auto

definition show_int :: "int \<Rightarrow> string" where
  "show_int i = (if i < 0 then ''-'' @ show_nat (nat (- i)) else show_nat (nat i))"

text \<open>\<^verbatim>\<open>JSON.stringify(v, null, 2)\<close> on the fragment.\<close>

definition hex_digit :: "nat \<Rightarrow> char" where
  "hex_digit n = (if n < 10 then char_of (48 + n) else char_of (87 + n))"

definition quote_char :: "char \<Rightarrow> string" where
  "quote_char c =
     (if c = CHR 0x22 then [CHR 0x5C, CHR 0x22]
      else if c = CHR 0x5C then [CHR 0x5C, CHR 0x5C]
      else if c = CHR 0x08 then [CHR 0x5C, CHR ''b'']
      else if c = CHR 0x0C then [CHR 0x5C, CHR ''f'']
      else if c = CHR 0x0A then [CHR 0x5C, CHR ''n'']
      else if c = CHR 0x0D then [CHR 0x5C, CHR ''r'']
      else if c = CHR 0x09 then [CHR 0x5C, CHR ''t'']
      else if (of_char c :: nat) < 32 then
        [CHR 0x5C, CHR ''u'', CHR ''0'', CHR ''0'', hex_digit (of_char c div 16), hex_digit (of_char c mod 16)]
      else [c])"

definition quote :: "string \<Rightarrow> string" where
  "quote s = [CHR 0x22] @ concat (map quote_char s) @ [CHR 0x22]"

fun stringify :: "nat \<Rightarrow> int json \<Rightarrow> string"
  and stringify_elements :: "nat \<Rightarrow> int json list \<Rightarrow> string"
  and stringify_members :: "nat \<Rightarrow> (string \<times> int json) list \<Rightarrow> string"
where
  "stringify ind JNull = ''null''"
| "stringify ind (JBool b) = (if b then ''true'' else ''false'')"
| "stringify ind (JNum n) = show_int n"
| "stringify ind (JStr s) = quote s"
| "stringify ind (JArr []) = ''[]''"
| "stringify ind (JArr (x # xs)) =
     ''['' @ [CHR 0x0A] @ stringify_elements (ind + 2) (x # xs) @ [CHR 0x0A] @ replicate ind CHR '' '' @ '']''"
| "stringify ind (JObj []) = ''{}''"
| "stringify ind (JObj (kv # kvs)) =
     ''{'' @ [CHR 0x0A] @ stringify_members (ind + 2) (kv # kvs) @ [CHR 0x0A] @ replicate ind CHR '' '' @ ''}''"
| "stringify_elements ind [] = []"
| "stringify_elements ind (x # xs) =
     replicate ind CHR '' '' @ stringify ind x @
     (if xs = [] then [] else '','' @ [CHR 0x0A] @ stringify_elements ind xs)"
| "stringify_members ind [] = []"
| "stringify_members ind ((k, v) # kvs) =
     replicate ind CHR '' '' @ quote k @ '': '' @ stringify ind v @
     (if kvs = [] then [] else '','' @ [CHR 0x0A] @ stringify_members ind kvs)"

definition example_platform :: "(int, unit) platform" where
  "example_platform =
     \<lparr>JSON_parse = json_parse,
      JSON_stringify = stringify 0,
      Number_truthy = (\<lambda>n. n \<noteq> 0),
      Number_toString = show_int,
      decoder_new = (),
      decoder_byte = (\<lambda>d b. ([char_of (unat b)], d))\<rparr>"

text \<open>The bytes of an ASCII text, and a text made of lines, each ended by a newline.\<close>

definition bytes_of :: "string \<Rightarrow> byte list" where
  "bytes_of s = map of_char s"

definition unlines :: "string list \<Rightarrow> string" where
  "unlines ls = concat (map (\<lambda>l. l @ [CHR 0x0A]) ls)"

text \<open>A token that is never cancelled, and one that is cancelled from poll \<open>n\<close> on.\<close>

definition never_cancelled :: "nat \<Rightarrow> bool" where
  "never_cancelled k = False"

definition cancelled_from :: "nat \<Rightarrow> nat \<Rightarrow> bool" where
  "cancelled_from n k = (n \<le> k)"

text \<open>
  Collaborators for the examples: every request is valid and is answered by \<open>resp\<close>; a
  provider whose storage holds a base URL.
\<close>

definition example_collaborators :: "int response option \<Rightarrow> int collaborators" where
  "example_collaborators resp =
     \<lparr>validateRequest = (\<lambda>msgs. True),
      convertMessages = (\<lambda>msgs. JArr []),
      convertTools = (\<lambda>opts. \<lparr>tc_tools = None, tc_tool_choice = None\<rparr>),
      fetch = (\<lambda>req. resp),
      showInputBox = (\<lambda>prompt. None)\<rparr>"

definition example_provider :: provider where
  "example_provider =
     \<lparr>secrets = [''litellm.baseUrl'' \<mapsto> ''http://localhost:4000''],
      userAgent = ''litellm-vscode-chat'',
      chatEndpoints = [],
      toolCallBuffers = Map.empty,
      completedToolCallIndices = {},
      hasEmittedAssistantText = False,
      emittedBeginToolCallsHint = False,
      textToolParserBuffer = [],
      textToolActive = None,
      emittedTextToolCallKeys = {},
      emittedTextToolCallIds = {}\<rparr>"

definition example_model :: LanguageModelChatInformation where
  "example_model = \<lparr>model_id = ''gpt'', maxInputTokens = 112000, maxOutputTokens = 16000\<rparr>"

text \<open>An event line that carries a text delta, and a stream cut inside two of its lines.\<close>

definition text_event :: "string \<Rightarrow> string" where
  \<open>text_event s = ''data: {"choices":[{"delta":{"content":"'' @ s @ ''"}}]}''\<close>

definition hello_chunks :: "byte list list" where
  \<open>hello_chunks =
     [bytes_of ''data: {"choi'',
      bytes_of (''ces":[{"delta":{"content":"Hel"}}]}'' @ [CHR 0x0A] @ ''data: {"choices":[{"del''),
      bytes_of (''ta":{"content":"lo"}}]}'' @ [CHR 0x0A] @ ''data: [DONE]'' @ [CHR 0x0A])]\<close>

text \<open>
  A tool call in the structured encoding: its argument text \<^verbatim>\<open>{}\<close> split over two delta
  events of index 0, the second with the finish signal. A non-streaming JSON response,
  and a response whose body is not JSON.
\<close>

definition tool_call_stream :: string where
  \<open>tool_call_stream = unlines
     [''data: {"choices":[{"delta":{"tool_calls":[{"index":0,"id":"call_1","function":{"name":"lookup","arguments":"{"}}]}}]}'',
      ''data: {"choices":[{"delta":{"tool_calls":[{"index":0,"function":{"arguments":"}"}}]},"finish_reason":"tool_calls"}]}'',
      ''data: [DONE]'']\<close>

definition hi_response :: "int response" where
  \<open>hi_response =
     \<lparr>ok = True,
      response_text = ''{"choices":[{"message":{"content":"hi"}}]}'',
      content_type = Some ''application/json'',
      response_json = json_parse ''{"choices":[{"message":{"content":"hi"}}]}'',
      response_body = None\<rparr>\<close>

definition plain_response :: "int response" where
  \<open>plain_response =
     \<lparr>ok = True,
      response_text = ''upstream unavailable'',
      content_type = Some ''text/plain'',
      response_json = json_parse ''upstream unavailable'',
      response_body = None\<rparr>\<close>

section \<open>Lines and chunks\<close>

lemma split_nl_ne [simp]: "split_nl s \<noteq> []"
  by (induction s) (auto split: list.splits)

lemma pop_split_nl [simp]: "pop (split_nl s) = (Some (last (split_nl s)), butlast (split_nl s))"
  by (simp add: pop_def)

lemma or_empty_Some [simp]: "or_empty (Some s) = s"
  by simp

lemma split_nl_append:
  "split_nl (a @ b) = butlast (split_nl a) @ (last (split_nl a) @ hd (split_nl b)) # tl (split_nl b)"
proof (induction a)
  case Nil
  then show ?case by (cases "split_nl b") auto
next
  case (Cons c a)
  then show ?case
    by (cases "split_nl a") (auto split: list.splits)
qed

lemma last_split_nl_no_nl: "CHR 0x0A \<notin> set (last (split_nl s))"
  by (induction s) (auto split: list.splits)

lemma split_nl_no_nl: "CHR 0x0A \<notin> set s \<Longrightarrow> split_nl s = [s]"
  by (induction s) (auto split: list.splits)

lemma split_nl_last_append:
  "split_nl (last (split_nl a) @ b) = (last (split_nl a) @ hd (split_nl b)) # tl (split_nl b)"
  using split_nl_append [of "last (split_nl a)" b] split_nl_no_nl [OF last_split_nl_no_nl [of a]]
  by simp

lemma butlast_split_nl_append:
  "butlast (split_nl (a @ b)) = butlast (split_nl a) @ butlast (split_nl (last (split_nl a) @ b))"
  by (simp only: split_nl_last_append) (simp add: split_nl_append butlast_append)

lemma last_split_nl_append:
  "last (split_nl (a @ b)) = last (split_nl (last (split_nl a) @ b))"
  by (simp only: split_nl_last_append) (simp add: split_nl_append)

lemma decode_append:
  "decode P d (a @ b) = (case decode P d a of (s, d') \<Rightarrow> (case decode P d' b of (t, d'') \<Rightarrow> (s @ t, d'')))"
  by (induction a arbitrary: d) (auto split: prod.splits)

lemma for_lines_append:
  "for_lines P (xs @ ys) =
     (if snd (for_lines P xs) then for_lines P xs
      else (fst (for_lines P xs) @ fst (for_lines P ys), snd (for_lines P ys)))"
  by (induction xs) (auto simp: Let_def split: prod.splits)

lemma while_loop_chunks_append:
  "(\<forall>k < length cs. \<not> token k) \<Longrightarrow> CHR 0x0A \<notin> set buffer \<Longrightarrow>
   while_loop P token d buffer (map Chunk cs @ rest) =
     (case decode P d (concat cs) of
        (s, d') \<Rightarrow>
          (case for_lines P (complete_lines buffer s) of
             (ps, stop) \<Rightarrow>
               if stop then (ps, Returned)
               else (case while_loop P (\<lambda>k. token (length cs + k)) d' (partial_line buffer s) rest of
                       (ps', out) \<Rightarrow> (ps @ ps', out))))"
proof (induction cs arbitrary: token d buffer)
  case Nil
  then show ?case
    by (simp add: complete_lines_def partial_line_def split_nl_no_nl split: prod.splits)
next
  case (Cons c cs)
  obtain s1 d1 where dec1: "decode P d c = (s1, d1)"
    by (cases "decode P d c")
  obtain s2 d2 where dec2: "decode P d1 (concat cs) = (s2, d2)"
    by (cases "decode P d1 (concat cs)")
  let ?l = "partial_line buffer s1"
  obtain ps1 stop1 where fl1: "for_lines P (complete_lines buffer s1) = (ps1, stop1)"
    by (cases "for_lines P (complete_lines buffer s1)")
  obtain ps2 stop2 where fl2: "for_lines P (complete_lines ?l s2) = (ps2, stop2)"
    by (cases "for_lines P (complete_lines ?l s2)")
  have tok0: "\<not> token 0" and tok: "\<forall>k < length cs. \<not> token (Suc k)"
    using Cons.prems by auto
  have nonl: "CHR 0x0A \<notin> set ?l"
    by (simp add: partial_line_def last_split_nl_no_nl)
  have IH: "while_loop P (\<lambda>k. token (Suc k)) d1 ?l (map Chunk cs @ rest) =
      (if stop2 then (ps2, Returned)
       else (case while_loop P (\<lambda>k. token (Suc (length cs + k))) d2 (partial_line ?l s2) rest of
               (ps', out) \<Rightarrow> (ps2 @ ps', out)))"
    using Cons.IH [of "\<lambda>k. token (Suc k)" ?l d1] tok nonl by (simp add: dec2 fl2)
  have lines: "complete_lines buffer (s1 @ s2) = complete_lines buffer s1 @ complete_lines ?l s2"
    using butlast_split_nl_append [of "buffer @ s1" s2]
    by (simp add: complete_lines_def partial_line_def)
  have part: "partial_line buffer (s1 @ s2) = partial_line ?l s2"
    using last_split_nl_append [of "buffer @ s1" s2]
    by (simp add: partial_line_def)
  have all: "for_lines P (complete_lines buffer (s1 @ s2)) =
      (if stop1 then (ps1, stop1) else (ps1 @ ps2, stop2))"
    by (simp add: lines for_lines_append fl1 fl2)
  have step: "while_loop P token d buffer (map Chunk (c # cs) @ rest) =
      (if stop1 then (ps1, Returned)
       else (case while_loop P (\<lambda>k. token (Suc k)) d1 ?l (map Chunk cs @ rest) of
               (ps', out) \<Rightarrow> (ps1 @ ps', out)))"
    using tok0 fl1 by (simp add: dec1 complete_lines_def partial_line_def)
  show ?case
    unfolding step IH
    by (simp add: decode_append dec1 dec2 all part split: prod.splits)
qed


lemma while_loop_cancelled: "token 0 \<Longrightarrow> while_loop P token d buffer rs = ([], Returned)"
  by (cases rs) simp_all

lemma run_chunks:
  assumes "\<forall>k < length cs. \<not> token k"
  shows "processStreamingResponse P (map Chunk cs) token =
           (fst (for_lines P (stream_lines P (concat cs))), Returned)"
proof -
  have "CHR 0x0A \<notin> set []"
    by simp
  from while_loop_chunks_append [OF assms this, of P "decoder_new P" "[]"] show ?thesis
    by (simp add: processStreamingResponse_def stream_lines_def split: prod.splits)
qed

lemma for_lines_done:
  "for_lines P (pre @ ''data: [DONE]'' # post) = (fst (for_lines P pre), True)"
  by (cases "for_lines P pre") (simp add: for_lines_append)

lemma for_lines_skip:
  assumes "JSON_parse P bad = None" and "bad \<noteq> ''[DONE]''"
  shows "for_lines P (pre @ (''data: '' @ bad) # post) = for_lines P (pre @ post)"
proof -
  have "handle_event P bad = []"
    using assms(1) by (simp add: handle_event_def)
  then have "for_lines P ((''data: '' @ bad) # post) = for_lines P post"
    using assms(2) by (simp split: prod.splits)
  then show ?thesis
    by (simp only: for_lines_append)
qed

section \<open>Chunk boundaries\<close>

text \<open>
  C2. However the bytes of a stream are cut into read chunks, the decoder reports the
  same parts, and ends the same way, as when the whole stream arrives in one chunk,
  as long as no poll before a read finds the token cancelled. The parts are those of
  the complete lines of the whole decoded text: the partial line at the end of a read
  waits in the buffer and is parsed only once its newline has arrived.
\<close>

theorem chunk_boundary_invariance:
  assumes "\<forall>k < length chunks. \<not> token k"
  shows "processStreamingResponse P (map Chunk chunks) token =
           processStreamingResponse P [Chunk (concat chunks)] token
       \<and> fst (processStreamingResponse P (map Chunk chunks) token) =
           fst (for_lines P (stream_lines P (concat chunks)))"
proof (cases "chunks = []")
  case True
  then show ?thesis
    by (simp add: processStreamingResponse_def stream_lines_def complete_lines_def)
next
  case False
  then have "\<not> token 0"
    using assms by (cases chunks) auto
  then have "\<forall>k < length [concat chunks]. \<not> token k"
    by simp
  from run_chunks [OF this, of P] run_chunks [OF assms, of P] show ?thesis
    by simp
qed


text \<open>
  The stream of the two text deltas ``Hel'' and ``lo'' and the end sentinel, cut inside
  the first and the second line, gives the two text parts.
\<close>

theorem chunk_boundary_invariance_witness:
  "length hello_chunks = 3
   \<and> \<not> never_cancelled 0 \<and> \<not> never_cancelled 1 \<and> \<not> never_cancelled 2
   \<and> processStreamingResponse example_platform (map Chunk hello_chunks) never_cancelled =
       processStreamingResponse example_platform [Chunk (concat hello_chunks)] never_cancelled
   \<and> fst (processStreamingResponse example_platform (map Chunk hello_chunks) never_cancelled) =
       [LanguageModelTextPart ''Hel'', LanguageModelTextPart ''lo'']"
proof -
  have h: "\<forall>k < length hello_chunks. \<not> never_cancelled k"
    by (simp add: never_cancelled_def)
  have e: "fst (for_lines example_platform (stream_lines example_platform (concat hello_chunks))) =
      [LanguageModelTextPart ''Hel'', LanguageModelTextPart ''lo'']"
    by code_simp
  note inv = chunk_boundary_invariance [OF h, of example_platform]
  from inv have a: "processStreamingResponse example_platform (map Chunk hello_chunks) never_cancelled =
      processStreamingResponse example_platform [Chunk (concat hello_chunks)] never_cancelled"
    by (rule conjunct1)
  from inv have "fst (processStreamingResponse example_platform (map Chunk hello_chunks) never_cancelled) =
      fst (for_lines example_platform (stream_lines example_platform (concat hello_chunks)))"
    by (rule conjunct2)
  then have b: "fst (processStreamingResponse example_platform (map Chunk hello_chunks) never_cancelled) =
      [LanguageModelTextPart ''Hel'', LanguageModelTextPart ''lo'']"
    using e by (rule trans)
  have n: "length hello_chunks = 3" and c: "\<not> never_cancelled 0" "\<not> never_cancelled 1" "\<not> never_cancelled 2"
    by (simp_all add: hello_chunks_def never_cancelled_def)
  from n c a b show ?thesis
    by (intro conjI)
qed


section \<open>The end sentinel\<close>

text \<open>
  C3. When the complete lines read so far contain the line \<^verbatim>\<open>data: [DONE]\<close>, the decoder
  returns normally with the parts of the lines before it: neither the lines \<open>post\<close>
  after it in the buffer nor the reads \<open>rest\<close> that were still to come change the
  result, whatever they are.
\<close>

theorem done_ends_decoding:
  assumes "\<forall>k < length chunks. \<not> token k"
    and "stream_lines P (concat chunks) = pre @ ''data: [DONE]'' # post"
  shows "processStreamingResponse P (map Chunk chunks @ rest) token = (fst (for_lines P pre), Returned)"
proof -
  obtain s d' where dec: "decode P (decoder_new P) (concat chunks) = (s, d')"
    by (cases "decode P (decoder_new P) (concat chunks)")
  have "for_lines P (complete_lines [] s) = (fst (for_lines P pre), True)"
    using assms(2) dec by (simp add: stream_lines_def for_lines_done)
  then show ?thesis
    unfolding processStreamingResponse_def
    by (simp add: while_loop_chunks_append [OF assms(1)] dec)
qed


text \<open>
  A text delta, the sentinel and another text delta in one chunk, followed by a chunk
  and a rejected read: only the first delta is reported and the call returns.
\<close>

theorem done_ends_decoding_witness:
  "\<not> never_cancelled 0
   \<and> stream_lines example_platform (concat [bytes_of (unlines [text_event ''a'', ''data: [DONE]'', text_event ''b''])]) =
       [text_event ''a''] @ ''data: [DONE]'' # [text_event ''b'']
   \<and> processStreamingResponse example_platform
        (map Chunk [bytes_of (unlines [text_event ''a'', ''data: [DONE]'', text_event ''b''])] @
           [Chunk (bytes_of (unlines [text_event ''c''])), ReadRejected])
        never_cancelled =
       ([LanguageModelTextPart ''a''], Returned)"
proof -
  let ?chunks = "[bytes_of (unlines [text_event ''a'', ''data: [DONE]'', text_event ''b''])]"
  have h1: "\<forall>k < length ?chunks. \<not> never_cancelled k"
    by (simp add: never_cancelled_def)
  have h2: "stream_lines example_platform (concat ?chunks) =
      [text_event ''a''] @ ''data: [DONE]'' # [text_event ''b'']"
    by code_simp
  have e: "fst (for_lines example_platform [text_event ''a'']) = [LanguageModelTextPart ''a'']"
    by code_simp
  from done_ends_decoding [OF h1 h2, of "[Chunk (bytes_of (unlines [text_event ''c''])), ReadRejected]"] e
  have r: "processStreamingResponse example_platform
      (map Chunk ?chunks @ [Chunk (bytes_of (unlines [text_event ''c''])), ReadRejected])
      never_cancelled = ([LanguageModelTextPart ''a''], Returned)"
    by (simp only:)
  have c: "\<not> never_cancelled 0"
    by (simp add: never_cancelled_def)
  from c h2 r show ?thesis
    by (intro conjI)
qed


section \<open>Malformed events\<close>

text \<open>
  C4. A line whose payload \<^verbatim>\<open>JSON.parse\<close> rejects is skipped and nothing else is lost:
  the decoder reports what it reports for the stream without that line and returns
  normally. When no sentinel precedes the line, these are the parts of the lines
  before it followed by the parts of the lines after it.
\<close>

theorem malformed_event_is_skipped:
  assumes "\<forall>k < length chunks. \<not> token k"
    and "stream_lines P (concat chunks) = pre @ (''data: '' @ bad) # post"
    and "JSON_parse P bad = None"
    and "bad \<noteq> ''[DONE]''"
  shows "processStreamingResponse P (map Chunk chunks) token = (fst (for_lines P (pre @ post)), Returned)
       \<and> (\<not> snd (for_lines P pre) \<longrightarrow>
            fst (processStreamingResponse P (map Chunk chunks) token) =
              fst (for_lines P pre) @ fst (for_lines P post))"
  using run_chunks [OF assms(1), of P] assms(2) for_lines_skip [OF assms(3,4), of pre post]
  by (simp add: for_lines_append)



text \<open>A truncated JSON payload between two text deltas: both deltas are reported.\<close>

theorem malformed_event_is_skipped_witness:
  \<open>\<not> never_cancelled 0
   \<and> JSON_parse example_platform ''{"choices":[{"delta":'' = None
   \<and> \<not> snd (for_lines example_platform [text_event ''a''])
   \<and> processStreamingResponse example_platform
        (map Chunk [bytes_of (unlines [text_event ''a'', ''data: {"choices":[{"delta":'', text_event ''b''])])
        never_cancelled =
       ([LanguageModelTextPart ''a'', LanguageModelTextPart ''b''], Returned)\<close>
proof -
  let ?chunks = \<open>[bytes_of (unlines [text_event ''a'', ''data: {"choices":[{"delta":'', text_event ''b''])]\<close>
  have h1: "\<forall>k < length ?chunks. \<not> never_cancelled k"
    by (simp add: never_cancelled_def)
  have h2: \<open>stream_lines example_platform (concat ?chunks) =
      [text_event ''a''] @ (''data: '' @ ''{"choices":[{"delta":'') # [text_event ''b'']\<close>
    by code_simp
  have h3: \<open>JSON_parse example_platform ''{"choices":[{"delta":'' = None\<close>
    by code_simp
  have h4: \<open>''{"choices":[{"delta":'' \<noteq> ''[DONE]''\<close>
    by simp
  have e1: "\<not> snd (for_lines example_platform [text_event ''a''])"
    by code_simp
  have e2: "fst (for_lines example_platform [text_event ''a'']) @
      fst (for_lines example_platform [text_event ''b'']) =
      [LanguageModelTextPart ''a'', LanguageModelTextPart ''b'']"
    by code_simp
  note skip = malformed_event_is_skipped [OF h1 h2 h3 h4]
  from skip have "processStreamingResponse example_platform (map Chunk ?chunks) never_cancelled =
      (fst (for_lines example_platform ([text_event ''a''] @ [text_event ''b''])), Returned)"
    by (rule conjunct1)
  moreover from skip e1 have "fst (processStreamingResponse example_platform (map Chunk ?chunks) never_cancelled) =
      fst (for_lines example_platform [text_event ''a'']) @ fst (for_lines example_platform [text_event ''b''])"
    by blast
  ultimately have r: "processStreamingResponse example_platform (map Chunk ?chunks) never_cancelled =
      ([LanguageModelTextPart ''a'', LanguageModelTextPart ''b''], Returned)"
    using e2 by (simp only: fst_conv)
  have c: "\<not> never_cancelled 0"
    by (simp add: never_cancelled_def)
  from c h3 e1 r show ?thesis
    by (intro conjI)
qed


section \<open>Cancellation\<close>

text \<open>
  C5. The token is polled before every read. When poll number \<open>length chunks\<close> is the
  first to find it cancelled, that is after \<open>length chunks\<close> reads, the decoder reads
  nothing more and returns without error, having reported exactly the parts that
  those reads produced; the reads \<open>rest\<close> still to come, even a failing one, are never
  made.
\<close>

theorem cancellation_checked_before_each_read:
  assumes "\<forall>k < length chunks. \<not> token k"
    and "token (length chunks)"
  shows "processStreamingResponse P (map Chunk chunks @ rest) token =
           (fst (processStreamingResponse P (map Chunk chunks) token), Returned)"
proof -
  obtain s d' where dec: "decode P (decoder_new P) (concat chunks) = (s, d')"
    by (cases "decode P (decoder_new P) (concat chunks)")
  obtain ps stop where fl: "for_lines P (complete_lines [] s) = (ps, stop)"
    by (cases "for_lines P (complete_lines [] s)")
  have "while_loop P (\<lambda>k. token (length chunks + k)) d' (partial_line [] s) rest = ([], Returned)"
    using assms(2) by (simp add: while_loop_cancelled)
  then have "processStreamingResponse P (map Chunk chunks @ rest) token = (ps, Returned)"
    unfolding processStreamingResponse_def
    by (simp add: while_loop_chunks_append [OF assms(1)] dec fl)
  moreover have "processStreamingResponse P (map Chunk chunks) token = (ps, Returned)"
    using run_chunks [OF assms(1), of P] dec fl by (simp add: stream_lines_def)
  ultimately show ?thesis
    by simp
qed


text \<open>
  Cancelled after the first read: the part of the first chunk is reported, the second
  chunk and the rejected read are never reached.
\<close>

theorem cancellation_checked_before_each_read_witness:
  "\<not> cancelled_from 1 0
   \<and> cancelled_from 1 (length [bytes_of (unlines [text_event ''a''])])
   \<and> processStreamingResponse example_platform
        (map Chunk [bytes_of (unlines [text_event ''a''])] @
           [Chunk (bytes_of (unlines [text_event ''b''])), ReadRejected])
        (cancelled_from 1) =
       ([LanguageModelTextPart ''a''], Returned)"
proof -
  let ?chunks = "[bytes_of (unlines [text_event ''a''])]"
  have h1: "\<forall>k < length ?chunks. \<not> cancelled_from 1 k"
    by (simp add: cancelled_from_def)
  have h2: "cancelled_from 1 (length ?chunks)"
    by (simp add: cancelled_from_def)
  have e: "fst (processStreamingResponse example_platform (map Chunk ?chunks) (cancelled_from 1)) =
      [LanguageModelTextPart ''a'']"
    by code_simp
  from cancellation_checked_before_each_read
    [OF h1 h2, of example_platform "[Chunk (bytes_of (unlines [text_event ''b''])), ReadRejected]"] e
  have r: "processStreamingResponse example_platform
      (map Chunk ?chunks @ [Chunk (bytes_of (unlines [text_event ''b''])), ReadRejected])
      (cancelled_from 1) = ([LanguageModelTextPart ''a''], Returned)"
    by (simp only:)
  have c: "\<not> cancelled_from 1 0"
    by (simp add: cancelled_from_def)
  from c h2 r show ?thesis
    by (intro conjI)
qed

section \<open>Events without text\<close>

lemma handle_event_cases:
  "handle_event P data = [] \<or> (\<exists>s. handle_event P data = [LanguageModelTextPart s])"
proof (cases "JSON_parse P data")
  case None
  then show ?thesis by (simp add: handle_event_def)
next
  case (Some parsed)
  show ?thesis
  proof (cases "String_js P (the (delta_content parsed))")
    case None
    with Some show ?thesis by (simp add: handle_event_def Let_def)
  next
    case (Some s)
    with \<open>JSON_parse P data = Some parsed\<close> show ?thesis by (simp add: handle_event_def Let_def)
  qed
qed

lemma handle_event_no_tool_call: "filter is_tool_call (handle_event P data) = []"
  using handle_event_cases [of P data] by auto

text \<open>
  C10. For a payload that parses: when the first choice's delta has no content, or the
  empty string as content, nothing is reported for the event; and whenever something
  is reported, the content was truthy and the report is one text part.
\<close>

theorem falsy_content_emits_nothing:
  assumes "JSON_parse P data = Some parsed"
  shows "(delta_content parsed = None \<or> delta_content parsed = Some (JStr []) \<longrightarrow> handle_event P data = [])
       \<and> (handle_event P data \<noteq> [] \<longrightarrow>
            truthy P (delta_content parsed) \<and> (\<exists>s. handle_event P data = [LanguageModelTextPart s]))"
proof (intro conjI impI)
  assume "delta_content parsed = None \<or> delta_content parsed = Some (JStr [])"
  then have "\<not> truthy P (delta_content parsed)"
    by auto
  with assms show "handle_event P data = []"
    by (simp add: handle_event_def)
next
  assume ne: "handle_event P data \<noteq> []"
  with assms show "truthy P (delta_content parsed)"
    by (auto simp: handle_event_def Let_def split: if_splits)
next
  assume ne: "handle_event P data \<noteq> []"
  show "\<exists>s. handle_event P data = [LanguageModelTextPart s]"
  proof (cases "String_js P (the (delta_content parsed))")
    case None
    with assms ne show ?thesis by (simp add: handle_event_def Let_def split: if_splits)
  next
    case (Some s)
    with assms ne show ?thesis by (simp add: handle_event_def Let_def split: if_splits)
  qed
qed

text \<open>
  An event with empty content and an event with a role only report nothing; the
  content ``x'' is truthy and is reported.
\<close>

theorem falsy_content_emits_nothing_witness:
  \<open>JSON_parse example_platform ''{"choices":[{"delta":{"content":""}}]}'' =
     Some (JObj [(''choices'', JArr [JObj [(''delta'', JObj [(''content'', JStr [])])]])])
   \<and> handle_event example_platform ''{"choices":[{"delta":{"content":""}}]}'' = []
   \<and> JSON_parse example_platform ''{"choices":[{"delta":{"role":"assistant"}}]}'' =
     Some (JObj [(''choices'', JArr [JObj [(''delta'', JObj [(''role'', JStr ''assistant'')])]])])
   \<and> handle_event example_platform ''{"choices":[{"delta":{"role":"assistant"}}]}'' = []
   \<and> handle_event example_platform ''{"choices":[{"delta":{"content":"x"}}]}'' \<noteq> []
   \<and> truthy example_platform
        (delta_content (JObj [(''choices'', JArr [JObj [(''delta'', JObj [(''content'', JStr ''x'')])]])]))\<close>
proof -
  let ?empty = \<open>JObj [(''choices'', JArr [JObj [(''delta'', JObj [(''content'', JStr [])])]])] :: int json\<close>
  let ?absent = \<open>JObj [(''choices'', JArr [JObj [(''delta'', JObj [(''role'', JStr ''assistant'')])]])] :: int json\<close>
  let ?x = \<open>JObj [(''choices'', JArr [JObj [(''delta'', JObj [(''content'', JStr ''x'')])]])] :: int json\<close>
  have p1: \<open>JSON_parse example_platform ''{"choices":[{"delta":{"content":""}}]}'' = Some ?empty\<close>
    by code_simp
  have c1: "delta_content ?empty = None \<or> delta_content ?empty = Some (JStr [])"
    by (simp add: delta_content_def)
  have p2: \<open>JSON_parse example_platform ''{"choices":[{"delta":{"role":"assistant"}}]}'' = Some ?absent\<close>
    by code_simp
  have c2: "delta_content ?absent = None \<or> delta_content ?absent = Some (JStr [])"
    by (simp add: delta_content_def)
  have p3: \<open>JSON_parse example_platform ''{"choices":[{"delta":{"content":"x"}}]}'' = Some ?x\<close>
    by code_simp
  have c3: \<open>handle_event example_platform ''{"choices":[{"delta":{"content":"x"}}]}'' \<noteq> []\<close>
    by code_simp
  from falsy_content_emits_nothing [OF p1] c1
  have r1: \<open>handle_event example_platform ''{"choices":[{"delta":{"content":""}}]}'' = []\<close>
    by blast
  from falsy_content_emits_nothing [OF p2] c2
  have r2: \<open>handle_event example_platform ''{"choices":[{"delta":{"role":"assistant"}}]}'' = []\<close>
    by blast
  from falsy_content_emits_nothing [OF p3] c3
  have r3: "truthy example_platform (delta_content ?x)"
    by blast
  from p1 r1 p2 r2 c3 r3 show ?thesis
    by (intro conjI)
qed

section \<open>Tool-call deltas\<close>

lemma for_lines_no_tool_call: "filter is_tool_call (fst (for_lines P ls)) = []"
  by (induction ls) (auto simp: Let_def handle_event_no_tool_call split: prod.splits)

lemma while_loop_no_tool_call: "filter is_tool_call (fst (while_loop P token d buffer rs)) = []"
proof (induction rs arbitrary: token d buffer)
  case Nil
  show ?case by simp
next
  case (Cons r rs)
  show ?case
  proof (cases r)
    case ReadRejected
    then show ?thesis by simp
  next
    case (Chunk val)
    obtain s d' where dec: "decode P d val = (s, d')"
      by (cases "decode P d val")
    obtain ps stop where fl: "for_lines P (butlast (split_nl (buffer @ s))) = (ps, stop)"
      by (cases "for_lines P (butlast (split_nl (buffer @ s)))")
    obtain ps' out where wl:
      "while_loop P (\<lambda>k. token (Suc k)) d' (last (split_nl (buffer @ s))) rs = (ps', out)"
      by (cases "while_loop P (\<lambda>k. token (Suc k)) d' (last (split_nl (buffer @ s))) rs")
    have a: "filter is_tool_call ps = []"
      using for_lines_no_tool_call [of P "butlast (split_nl (buffer @ s))"] fl by simp
    have b: "filter is_tool_call ps' = []"
      using Cons.IH [of "\<lambda>k. token (Suc k)" d' "last (split_nl (buffer @ s))"] wl by simp
    show ?thesis
      using Chunk dec fl wl a b by simp
  qed
qed

lemma reset_turn_fields:
  "toolCallBuffers (reset_turn this) = Map.empty"
  "completedToolCallIndices (reset_turn this) = {}"
  "hasEmittedAssistantText (reset_turn this) = False"
  "emittedBeginToolCallsHint (reset_turn this) = False"
  "textToolParserBuffer (reset_turn this) = []"
  "textToolActive (reset_turn this) = None"
  "emittedTextToolCallKeys (reset_turn this) = {}"
  "emittedTextToolCallIds (reset_turn this) = {}"
  "secrets (reset_turn this) = secrets this"
  "userAgent (reset_turn this) = userAgent this"
  "chatEndpoints (reset_turn this) = chatEndpoints this"
  by (simp_all add: reset_turn_def)

lemma provide_state:
  "fst (provideLanguageModelChatResponse P C this model messages options token) =
     (reset_turn this)\<lparr>secrets := snd (ensureConfig (showInputBox C) (secrets this) True)\<rparr>"
  by (simp add: provideLanguageModelChatResponse_def Let_def reset_turn_fields
      split: prod.splits option.splits)

text \<open>
  C1, as the code has it. The streaming decoder reads nothing but the text content of
  a delta: whatever the stream, the token and the host, it reports no tool-invocation
  part, and the tool-call buffers of the provider are empty after every call. So a
  tool call reports the same parts, none, whether its argument text arrives split
  over several delta events or in one.
\<close>

theorem tool_call_deltas_emit_nothing:
  "filter is_tool_call (fst (processStreamingResponse P responseBody token)) = []
   \<and> toolCallBuffers (fst (provideLanguageModelChatResponse P C this model messages options token)) = Map.empty"
  by (simp add: processStreamingResponse_def while_loop_no_tool_call provide_state reset_turn_fields)

text \<open>
  C1, as it is stated, fails: the two delta events of \<open>tool_call_stream\<close> and the finish
  signal yield no part at all, not one tool-invocation part.
\<close>

theorem tool_call_deltas_counterexample:
  "processStreamingResponse example_platform [Chunk (bytes_of tool_call_stream)] never_cancelled =
     ([], Returned)
   \<and> length (filter is_tool_call
        (fst (processStreamingResponse example_platform [Chunk (bytes_of tool_call_stream)] never_cancelled))) \<noteq> 1"
  by code_simp

section \<open>The turn state\<close>

lemma reset_turn_update:
  "reset_turn (this\<lparr>toolCallBuffers := b, completedToolCallIndices := c,
      hasEmittedAssistantText := h, emittedBeginToolCallsHint := g, textToolParserBuffer := t,
      textToolActive := a, emittedTextToolCallKeys := ks, emittedTextToolCallIds := ids\<rparr>) =
   reset_turn this"
  by (simp add: reset_turn_def)

lemma provide_reset:
  "provideLanguageModelChatResponse P C this model messages options token =
   provideLanguageModelChatResponse P C (reset_turn this) model messages options token"
  by (simp add: provideLanguageModelChatResponse_def reset_turn_def)

text \<open>
  C9. Whatever the turn-state fields hold when the entry point is called, the call
  gives the same provider, the same parts and the same outcome as if they held
  anything else: the values a previous turn left behind are not observable. After the
  call, also one that fails before any request is made, every turn-state field has
  its reset value.
\<close>

theorem turn_state_is_reset:
  "provideLanguageModelChatResponse P C
     (this\<lparr>toolCallBuffers := b, completedToolCallIndices := c,
        hasEmittedAssistantText := h, emittedBeginToolCallsHint := g, textToolParserBuffer := t,
        textToolActive := a, emittedTextToolCallKeys := ks, emittedTextToolCallIds := ids\<rparr>)
     model messages options token =
   provideLanguageModelChatResponse P C this model messages options token
   \<and> toolCallBuffers (fst (provideLanguageModelChatResponse P C this model messages options token)) = Map.empty
   \<and> completedToolCallIndices (fst (provideLanguageModelChatResponse P C this model messages options token)) = {}
   \<and> hasEmittedAssistantText (fst (provideLanguageModelChatResponse P C this model messages options token)) = False
   \<and> emittedBeginToolCallsHint (fst (provideLanguageModelChatResponse P C this model messages options token)) = False
   \<and> textToolParserBuffer (fst (provideLanguageModelChatResponse P C this model messages options token)) = []
   \<and> textToolActive (fst (provideLanguageModelChatResponse P C this model messages options token)) = None
   \<and> emittedTextToolCallKeys (fst (provideLanguageModelChatResponse P C this model messages options token)) = {}
   \<and> emittedTextToolCallIds (fst (provideLanguageModelChatResponse P C this model messages options token)) = {}"
proof -
  have "provideLanguageModelChatResponse P C
     (this\<lparr>toolCallBuffers := b, completedToolCallIndices := c,
        hasEmittedAssistantText := h, emittedBeginToolCallsHint := g, textToolParserBuffer := t,
        textToolActive := a, emittedTextToolCallKeys := ks, emittedTextToolCallIds := ids\<rparr>)
     model messages options token =
   provideLanguageModelChatResponse P C this model messages options token"
    by (subst provide_reset, subst (2) provide_reset) (simp only: reset_turn_update)
  then show ?thesis
    by (simp add: provide_state reset_turn_fields)
qed

section \<open>The output-token limit\<close>

text \<open>
  C6, as the code has it. The \<^verbatim>\<open>max_tokens\<close> of the request body is
  \<^verbatim>\<open>min(requested || 4096, model.maxOutputTokens)\<close>: it is the clamp of the specification
  unless the caller requested zero, which counts as absent and yields
  \<^verbatim>\<open>min(4096, model.maxOutputTokens)\<close>.
\<close>

theorem max_tokens_clamp:
  "body_max_tokens (make_requestBody C model messages options P) =
     (if requested_max_tokens options = Some 0 then min 4096 (maxOutputTokens model)
      else spec_max_tokens (requested_max_tokens options) (maxOutputTokens model))"
  by (cases "requested_max_tokens options")
     (simp_all add: make_requestBody_def Let_def spec_max_tokens_def)

text \<open>
  C6, as it is stated, fails for a requested value of zero: the body carries 4096, the
  specification's clamp gives 0.
\<close>

theorem max_tokens_clamp_counterexample:
  "body_max_tokens
     (make_requestBody (example_collaborators None) example_model []
        \<lparr>modelOptions = Some \<lparr>max_tokens = Some 0, temperature = None\<rparr>, tools = None\<rparr>
        example_platform) = 4096
   \<and> spec_max_tokens (Some 0) (maxOutputTokens example_model) = 0"
  by (simp add: make_requestBody_def Let_def spec_max_tokens_def requested_max_tokens_def
      example_model_def)

section \<open>The token estimates\<close>

text \<open>The token count of one message is its estimate.\<close>

lemma provideTokenCount_message: "provideTokenCount (Inr m) = estimateMessagesTokens [m]"
  by (simp add: provideTokenCount_def estimateMessagesTokens_def)

lemma ceil4_div: "ceil4 n = (n + 3) div 4"
proof -
  have "\<lceil>real n / 4\<rceil> = - ((- int n) div 4)"
    using ceiling_divide_eq_div [of "int n" 4] by simp
  then show ?thesis
    unfolding ceil4_def by simp
qed

lemma ceil4_add: "ceil4 (a + b) \<le> ceil4 a + ceil4 b"
  unfolding ceil4_div by presburger

lemma fold_add_part:
  "fold add_part ps n = n + sum_list (map (\<lambda>v. ceil4 (length v)) (concat (map text_value ps)))"
proof (induction ps arbitrary: n)
  case Nil
  show ?case by simp
next
  case (Cons p ps)
  then show ?case by (cases p) simp_all
qed

lemma fold_messages:
  "fold (\<lambda>m n. fold add_part (content m) n) msgs n =
     n + sum_list (map (\<lambda>v. ceil4 (length v)) (text_values msgs))"
  by (induction msgs arbitrary: n) (simp_all add: text_values_def fold_add_part)

lemma ceil4_sum_list: "ceil4 (sum_list (map length vs)) \<le> sum_list (map (\<lambda>v. ceil4 (length v)) vs)"
proof (induction vs)
  case Nil
  show ?case by (simp add: ceil4_div)
next
  case (Cons v vs)
  have "ceil4 (length v + sum_list (map length vs)) \<le> ceil4 (length v) + ceil4 (sum_list (map length vs))"
    by (rule ceil4_add)
  with Cons show ?case by simp
qed

text \<open>
  C7, as the code has it. The message estimate is the sum, over the text parts of all
  messages, of the part's length divided by four and rounded up: each part is rounded
  on its own, so the estimate is at least the total length divided by four and rounded
  up. When serializing the tool array fails, the tool estimate is 0.
\<close>

theorem token_estimates:
  "estimateMessagesTokens msgs = sum_list (map (\<lambda>v. ceil4 (length v)) (text_values msgs))
   \<and> spec_estimateMessages msgs \<le> estimateMessagesTokens msgs
   \<and> (serialize ts = None \<longrightarrow> estimateToolTokens serialize (Some ts) = 0)"
  by (simp add: estimateMessagesTokens_def fold_messages spec_estimateMessages_def ceil4_sum_list
      estimateToolTokens_def)

text \<open>
  C7, as it is stated, fails: two text parts of one character each are estimated at 2,
  their total length of 2 divided by four and rounded up is 1.
\<close>

theorem token_estimates_counterexample:
  "estimateMessagesTokens
     [\<lparr>role = User, content = [LanguageModelTextPart ''a'', LanguageModelTextPart ''b'' :: int part]\<rparr>] = 2
   \<and> spec_estimateMessages
     [\<lparr>role = User, content = [LanguageModelTextPart ''a'', LanguageModelTextPart ''b'' :: int part]\<rparr>] = 1"
  by (simp add: estimateMessagesTokens_def spec_estimateMessages_def text_values_def ceil4_div)

text \<open>Parts of five and of one character are estimated at 3; a failing serializer gives 0.\<close>

theorem token_estimates_witness:
  "estimateMessagesTokens
     [\<lparr>role = User, content = [LanguageModelTextPart ''hello'', LanguageModelTextPart ''b'' :: int part]\<rparr>] = 3
   \<and> estimateToolTokens (\<lambda>ts :: unit list. None) (Some [()]) = 0"
proof -
  have h: "(\<lambda>ts :: unit list. None :: string option) [()] = None"
    by simp
  note t = token_estimates [of "[\<lparr>role = User, content = [LanguageModelTextPart ''hello'', LanguageModelTextPart ''b'' :: int part]\<rparr>]"
      "\<lambda>ts :: unit list. None" "[()]"]
  from t have a: "estimateMessagesTokens
     [\<lparr>role = User, content = [LanguageModelTextPart ''hello'', LanguageModelTextPart ''b'' :: int part]\<rparr>] = 3"
    by (simp add: text_values_def ceil4_div)
  from t h have b: "estimateToolTokens (\<lambda>ts :: unit list. None) (Some [()]) = 0"
    by blast
  from a b show ?thesis
    by (intro conjI)
qed

section \<open>Non-streaming responses\<close>

text \<open>
  C8, as the code has it. For a response that is not an event stream and whose body
  is a JSON document: the value read is the first choice's message content, else (when
  that is \<^verbatim>\<open>null\<close> or absent) the content of the alternate shape, else the document
  printed with an indent of two; when \<^verbatim>\<open>String\<close> converts that value, exactly one text
  part with the converted text is reported and the call returns. A content that is a
  string is reported as it is.
\<close>

theorem non_streaming_response:
  assumes "\<not> str_includes (case content_type resp of None \<Rightarrow> [] | Some c \<Rightarrow> c) ''text/event-stream''"
    and "response_json resp = Some j"
  shows "(String_js P (response_text_value P j) = Some s \<longrightarrow>
            handle_response P resp token = ([LanguageModelTextPart s], Returned))
       \<and> (message_content j = Some (JStr t) \<longrightarrow>
            handle_response P resp token = ([LanguageModelTextPart t], Returned))
       \<and> response_text_value P j =
            (if \<not> nullish (message_content j) then the (message_content j)
             else if \<not> nullish (assistant_content j) then the (assistant_content j)
             else JStr (JSON_stringify P j))"
proof (intro conjI impI)
  assume "String_js P (response_text_value P j) = Some s"
  with assms show "handle_response P resp token = ([LanguageModelTextPart s], Returned)"
    by (simp add: handle_response_def)
next
  assume "message_content j = Some (JStr t)"
  then have "response_text_value P j = JStr t"
    by (simp add: response_text_value_def coalesce_def)
  with assms show "handle_response P resp token = ([LanguageModelTextPart t], Returned)"
    by (simp add: handle_response_def)
next
  show "response_text_value P j =
      (if \<not> nullish (message_content j) then the (message_content j)
       else if \<not> nullish (assistant_content j) then the (assistant_content j)
       else JStr (JSON_stringify P j))"
    by (simp add: response_text_value_def coalesce_def)
qed

text \<open>
  C8, as it is stated, fails: a response of content type \<^verbatim>\<open>text/plain\<close> whose body is not
  JSON makes the call throw, and no part is reported.
\<close>

theorem non_streaming_response_counterexample:
  "snd (provideLanguageModelChatResponse example_platform (example_collaborators (Some plain_response))
          example_provider example_model [] \<lparr>modelOptions = None, tools = None\<rparr> never_cancelled) =
     ([], Threw BodyNotJson)"
  by code_simp

text \<open>The document \<^verbatim>\<open>{"choices":[{"message":{"content":"hi"}}]}\<close> yields the text part ``hi''.\<close>

theorem non_streaming_response_witness:
  \<open>\<not> str_includes (case content_type hi_response of None \<Rightarrow> [] | Some c \<Rightarrow> c) ''text/event-stream''
   \<and> response_json hi_response =
       Some (JObj [(''choices'', JArr [JObj [(''message'', JObj [(''content'', JStr ''hi'')])]])])
   \<and> handle_response example_platform hi_response never_cancelled = ([LanguageModelTextPart ''hi''], Returned)\<close>
proof -
  let ?j = \<open>JObj [(''choices'', JArr [JObj [(''message'', JObj [(''content'', JStr ''hi'')])]])] :: int json\<close>
  have h1: "\<not> str_includes (case content_type hi_response of None \<Rightarrow> [] | Some c \<Rightarrow> c) ''text/event-stream''"
    by code_simp
  have h2: "response_json hi_response = Some ?j"
    by code_simp
  have h3: "message_content ?j = Some (JStr ''hi'')"
    by (simp add: message_content_def)
  from non_streaming_response [OF h1 h2, where P = example_platform and t = "''hi''" and token = never_cancelled] h3
  have r: "handle_response example_platform hi_response never_cancelled = ([LanguageModelTextPart ''hi''], Returned)"
    by blast
  from h1 h2 r show ?thesis
    by (intro conjI)
qed

end
